theory Spec2Isabelle
  imports Main "HOL-Library.AList" "HOL-Library.Word"
begin

section \<open>Values exchanged with the environment\<close>

text \<open>
  A thrown JavaScript value, identified by its class and message. The middleware itself
  constructs two errors (lines 73 and 120) and the language one, for the reference to an
  undeclared \<^verbatim>\<open>window\<close> at line 70; every other error comes from the transport, the
  wallet, the RPC client, a library or a callback.
\<close>

datatype error = Error string | ReferenceError string

definition phantom_not_found :: error where
  "phantom_not_found = Error ''Phantom wallet not found. Please install Phantom extension.''"

definition window_not_defined :: error where
  "window_not_defined = ReferenceError ''window is not defined''"

definition not_in_browser :: error where
  "not_in_browser = Error ''initMonoPay must be called in the browser.''"

text \<open>The body of a 402 response, as declared in \<^verbatim>\<open>middleware.d.ts\<close>.\<close>

record PaymentConfig =
  requiresPayment :: bool
  serviceId :: string
  wallet :: string
  priceLamports :: int
  message :: string

text \<open>
  A \<^verbatim>\<open>Response\<close>: the status the code inspects, the outcome of \<^verbatim>\<open>.json()\<close>
  (which rejects on a body that does not parse), and whatever else the response holds.
\<close>

record response =
  status :: nat
  json :: "error + PaymentConfig"
  payload :: string

subsection \<open>Objects of the caller: fetch options and headers\<close>

type_synonym addr = nat

text \<open>Own enumerable string-valued properties of an object, in insertion order.\<close>

type_synonym props = "(string \<times> string) list"

text \<open>
  \<^verbatim>\<open>RequestInit.headers\<close> is a plain object of name/value properties or a
  \<^verbatim>\<open>Headers\<close> instance, which keeps its entries in an internal list and has no own
  enumerable property. (The third form of \<^verbatim>\<open>HeadersInit\<close>, an array of pairs, is
  not modelled.)
\<close>

datatype headers_obj = PlainObject props | HeadersInstance props

text \<open>
  A \<^verbatim>\<open>RequestInit\<close> object: \<open>headers\<close> is a reference to a headers object or
  undefined; \<open>others\<close> are the remaining own properties (mode, credentials, ...).
\<close>

record fetch_options =
  http_method :: "string option"
  body :: "string option"
  headers :: "addr option"
  others :: props

text \<open>What the transport sees of an options object: the references followed.\<close>

record request =
  req_method :: "string option"
  req_body :: "string option"
  req_headers :: "headers_obj option"
  req_others :: props

subsection \<open>Wallet, ledger and transaction\<close>

datatype pubkey = PublicKey "8 word list"

type_synonym blockhash = string

text \<open>The argument of \<^verbatim>\<open>SystemProgram.transfer\<close>.\<close>

record transfer_params =
  fromPubkey :: "pubkey option"
  toPubkey :: pubkey
  lamports :: int

text \<open>
  A \<^verbatim>\<open>Transaction\<close>: the two constructor fields the code sets and the instructions
  added with \<^verbatim>\<open>tx.add\<close>.
\<close>

record transaction =
  recentBlockhash :: blockhash
  feePayer :: "pubkey option"
  instructions :: "transfer_params list"

text \<open>What the wallet hands back: \<^verbatim>\<open>.signature\<close> is the first signature or null.\<close>

record signed_transaction = transaction +
  signature :: "8 word list option"

text \<open>
  \<^verbatim>\<open>window.phantom.solana\<close>. \<open>connect\<close> is \<open>None\<close> when the promise resolves and
  \<open>Some e\<close> when it rejects with \<open>e\<close>; \<open>publicKey\<close> is the value read at line 83,
  after any connection attempt (null when the wallet exposes none).
\<close>

record phantom_wallet =
  isConnected :: bool
  connect :: "error option"
  publicKey :: "pubkey option"
  signTransaction :: "transaction \<Rightarrow> error + signed_transaction"

text \<open>
  The global \<^verbatim>\<open>window\<close>: not declared at all (Node, server-side rendering, a worker),
  declared with the value undefined, or an object, given by its \<^verbatim>\<open>phantom.solana\<close>
  (\<open>None\<close> when a link of the chain is missing or falsy).
\<close>

datatype global_window = Undeclared | WindowUndefined | Window "phantom_wallet option"

text \<open>
  Everything the middleware reaches outside itself. \<open>fetch n\<close> is the transport's answer
  to the call made after \<open>n\<close> earlier transport calls of the same logical call, so that a
  server may answer the retry differently. \<^verbatim>\<open>new PublicKey\<close>, \<^verbatim>\<open>new Connection\<close>,
  \<^verbatim>\<open>getLatestBlockhash\<close>, \<^verbatim>\<open>SystemProgram.transfer\<close> and \<^verbatim>\<open>bs58.encode\<close> are those
  of \<^verbatim>\<open>@solana/web3.js\<close> and \<^verbatim>\<open>bs58\<close>, taken as parameters, each of which may throw
  (\<open>SystemProgram_transfer\<close> is \<open>None\<close> when the instruction is built and \<open>Some e\<close>
  when the library throws \<open>e\<close>, as it does on an amount it cannot encode);
  \<^verbatim>\<open>new Transaction\<close> and \<^verbatim>\<open>tx.add\<close> build the data above and do not throw.
\<close>

record env =
  fetch :: "nat \<Rightarrow> string \<Rightarrow> request \<Rightarrow> error + response"
  window :: global_window
  new_PublicKey :: "string \<Rightarrow> error + pubkey"
  new_Connection :: "string \<Rightarrow> error option"
  getLatestBlockhash :: "string \<Rightarrow> error + blockhash"
  SystemProgram_transfer :: "transfer_params \<Rightarrow> error option"
  bs58_encode :: "8 word list option \<Rightarrow> error + string"

text \<open>
  The wallet capability of the environment: the value of \<^verbatim>\<open>window?.phantom?.solana\<close>
  where the expression has one, and \<open>None\<close> also where \<^verbatim>\<open>window\<close> is not declared and
  the expression throws.
\<close>

definition phantom_solana :: "env \<Rightarrow> phantom_wallet option" where
  "phantom_solana env =
     (case window env of Undeclared \<Rightarrow> None | WindowUndefined \<Rightarrow> None | Window p \<Rightarrow> p)"

text \<open>
  The options of \<^verbatim>\<open>createMonoPayMiddleware\<close>. A callback is \<open>None\<close> when not
  supplied; a supplied callback returns normally (\<open>None\<close>) or throws (\<open>Some e\<close>).
\<close>

record MonoPayMiddlewareOptions =
  rpcUrl :: "string option"
  onPaymentStart :: "(unit \<Rightarrow> error option) option"
  onPaymentSuccess :: "(string \<Rightarrow> error option) option"
  onPaymentError :: "(error \<Rightarrow> error option) option"

section \<open>Effects\<close>

text \<open>
  Every interaction with the environment, in the order it happens: a transport call with
  the reference and the request it is handed, the invocation of a callback, the lookup of
  \<^verbatim>\<open>window.phantom.solana\<close>, \<^verbatim>\<open>phantom.connect()\<close>, the construction of the RPC
  connection, \<^verbatim>\<open>getLatestBlockhash()\<close> and \<^verbatim>\<open>phantom.signTransaction(tx)\<close>.
\<close>

datatype event =
    Fetch string addr request
  | OnPaymentStart
  | OnPaymentSuccess string
  | OnPaymentError error
  | ResolveWallet
  | Connect
  | NewConnection string
  | GetLatestBlockhash string
  | SignTransaction transaction

text \<open>
  The object store and the trace. Addresses below \<open>next_addr\<close> are allocated; an object
  literal allocates at \<open>next_addr\<close>.
\<close>

record state =
  options_at :: "addr \<Rightarrow> fetch_options"
  headers_at :: "addr \<Rightarrow> headers_obj"
  next_addr :: addr
  trace :: "event list"

type_synonym 'a io = "state \<Rightarrow> (error + 'a) \<times> state"

definition return :: "'a \<Rightarrow> 'a io" where
  "return x s = (Inr x, s)"

definition throw :: "error \<Rightarrow> 'a io" where
  "throw e s = (Inl e, s)"

definition await :: "'a io \<Rightarrow> ('a \<Rightarrow> 'b io) \<Rightarrow> 'b io" where
  "await m k s = (case m s of (Inl e, s') \<Rightarrow> (Inl e, s') | (Inr x, s') \<Rightarrow> k x s')"

definition try_catch :: "'a io \<Rightarrow> (error \<Rightarrow> 'a io) \<Rightarrow> 'a io" where
  "try_catch m h s = (case m s of (Inl e, s') \<Rightarrow> h e s' | (Inr x, s') \<Rightarrow> (Inr x, s'))"

definition settle :: "error + 'a \<Rightarrow> 'a io" where
  "settle r = (case r of Inl e \<Rightarrow> throw e | Inr x \<Rightarrow> return x)"

definition emit :: "event \<Rightarrow> unit io" where
  "emit ev s = (Inr (), s\<lparr>trace := trace s @ [ev]\<rparr>)"

definition new_options :: "fetch_options \<Rightarrow> addr io" where
  "new_options obj s =
     (Inr (next_addr s),
      s\<lparr>options_at := (options_at s)(next_addr s := obj), next_addr := Suc (next_addr s)\<rparr>)"

definition new_headers :: "props \<Rightarrow> addr io" where
  "new_headers ps s =
     (Inr (next_addr s),
      s\<lparr>headers_at := (headers_at s)(next_addr s := PlainObject ps),
        next_addr := Suc (next_addr s)\<rparr>)"

definition get_options :: "addr \<Rightarrow> fetch_options io" where
  "get_options a s = (Inr (options_at s a), s)"

definition get_headers :: "addr option \<Rightarrow> headers_obj option io" where
  "get_headers r s = (Inr (map_option (headers_at s) r), s)"

fun is_fetch :: "event \<Rightarrow> bool" where
  "is_fetch (Fetch url a req) = True"
| "is_fetch ev = False"

definition fetch_count :: "event list \<Rightarrow> nat" where
  "fetch_count tr = length (filter is_fetch tr)"

definition request_of :: "state \<Rightarrow> addr \<Rightarrow> request" where
  "request_of s a =
     \<lparr>req_method = http_method (options_at s a), req_body = body (options_at s a),
      req_headers = map_option (headers_at s) (headers (options_at s a)),
      req_others = others (options_at s a)\<rparr>"

text \<open>\<^verbatim>\<open>await fetch(url, options)\<close>: the transport is handed the reference.\<close>

definition fetch_io :: "env \<Rightarrow> string \<Rightarrow> addr \<Rightarrow> response io" where
  "fetch_io env url a s =
     (fetch env (fetch_count (trace s)) url (request_of s a),
      s\<lparr>trace := trace s @ [Fetch url a (request_of s a)]\<rparr>)"

text \<open>\<^verbatim>\<open>if (cb) cb(arg)\<close>: the invocation is recorded, then the callback may throw.\<close>

definition invoke :: "('a \<Rightarrow> error option) option \<Rightarrow> event \<Rightarrow> 'a \<Rightarrow> unit io" where
  "invoke cb ev arg =
     (case cb of
        None \<Rightarrow> return ()
      | Some f \<Rightarrow> await (emit ev) (\<lambda>_. case f arg of None \<Rightarrow> return () | Some e \<Rightarrow> throw e))"

section \<open>The middleware\<close>

text \<open>
  The properties an object spread copies out of \<^verbatim>\<open>fetchOptions.headers\<close>: the own
  enumerable ones. Spreading undefined copies nothing.
\<close>

fun spread_headers :: "headers_obj option \<Rightarrow> props" where
  "spread_headers None = []"
| "spread_headers (Some (PlainObject ps)) = ps"
| "spread_headers (Some (HeadersInstance ps)) = []"

text \<open>
  \<^verbatim>\<open>createAndSignTransaction\<close>, lines 69 to 108. Optional chaining guards a value
  that is undefined or null, not an identifier that is not declared: where there is no
  global \<^verbatim>\<open>window\<close>, line 70 throws a ReferenceError.
\<close>

definition createAndSignTransaction :: "env \<Rightarrow> PaymentConfig \<Rightarrow> string \<Rightarrow> string io" where
  "createAndSignTransaction env paymentConfig rpc =
     await (emit ResolveWallet)
     (\<lambda>_. if window env = Undeclared then throw window_not_defined
      else
       (case phantom_solana env of
          None \<Rightarrow> throw phantom_not_found
        | Some phantom_w \<Rightarrow>
          await (if \<not> isConnected phantom_w
                 then await (emit Connect)
                        (\<lambda>_. case connect phantom_w of None \<Rightarrow> return () | Some e \<Rightarrow> throw e)
                 else return ())
          (\<lambda>_. let fromPubkey = publicKey phantom_w in
          await (settle (new_PublicKey env (wallet paymentConfig)))
          (\<lambda>toPubkey.
          await (emit (NewConnection rpc))
          (\<lambda>_. await (case new_Connection env rpc of None \<Rightarrow> return () | Some e \<Rightarrow> throw e)
          (\<lambda>_. await (emit (GetLatestBlockhash rpc))
          (\<lambda>_. await (settle (getLatestBlockhash env rpc))
          (\<lambda>blockhash.
            let transfer = \<lparr>fromPubkey = fromPubkey, toPubkey = toPubkey,
                            lamports = priceLamports paymentConfig\<rparr> in
          await (case SystemProgram_transfer env transfer of
                   None \<Rightarrow> return () | Some e \<Rightarrow> throw e)
          (\<lambda>_.
            let tx = \<lparr>recentBlockhash = blockhash, feePayer = fromPubkey,
                      instructions = [transfer]\<rparr> in
          await (emit (SignTransaction tx))
          (\<lambda>_. await (settle (signTransaction phantom_w tx))
          (\<lambda>signed. settle (bs58_encode env (signature signed)))))))))))))"

text \<open>
  The retry of lines 48 to 54: a new options object that copies the own properties of
  \<^verbatim>\<open>fetchOptions\<close> and whose \<open>headers\<close> is a new plain object, the spread of
  \<^verbatim>\<open>fetchOptions.headers\<close> with the signature stored under \<^verbatim>\<open>x-tx-signature\<close>.
\<close>

definition retry :: "env \<Rightarrow> string \<Rightarrow> addr \<Rightarrow> string \<Rightarrow> response io" where
  "retry env url fetchOptions sig =
     await (get_options fetchOptions)
     (\<lambda>original.
     await (get_headers (headers original))
     (\<lambda>originalHeaders.
     await (new_headers
              (AList.update ''x-tx-signature'' sig (spread_headers originalHeaders)))
     (\<lambda>newHeaders.
     await (new_options (original\<lparr>headers := Some newHeaders\<rparr>))
     (\<lambda>retryOptions. fetch_io env url retryOptions))))"

text \<open>
  \<^verbatim>\<open>monoPayFetch\<close>, lines 27 to 61, closed over the destructured options of
  \<^verbatim>\<open>createMonoPayMiddleware\<close>. An omitted \<^verbatim>\<open>fetchOptions\<close> defaults to a new
  empty object.
\<close>

definition monoPayFetch ::
  "string \<Rightarrow> (unit \<Rightarrow> error option) option \<Rightarrow> (string \<Rightarrow> error option) option \<Rightarrow>
   (error \<Rightarrow> error option) option \<Rightarrow> env \<Rightarrow> string \<Rightarrow> addr option \<Rightarrow> response io" where
  "monoPayFetch rpc onStart onSuccess onError env url fetchOptionsArg =
     await (case fetchOptionsArg of
              None \<Rightarrow> new_options \<lparr>http_method = None, body = None, headers = None, others = []\<rparr>
            | Some a \<Rightarrow> return a)
     (\<lambda>fetchOptions.
       try_catch
         (await (fetch_io env url fetchOptions)
          (\<lambda>initialResponse.
            if status initialResponse \<noteq> 402 then return initialResponse
            else
              await (settle (json initialResponse))
              (\<lambda>paymentConfig.
              await (invoke onStart OnPaymentStart ())
              (\<lambda>_. await (createAndSignTransaction env paymentConfig rpc)
              (\<lambda>signature.
              await (invoke onSuccess (OnPaymentSuccess signature) signature)
              (\<lambda>_. await (retry env url fetchOptions signature)
              (\<lambda>retryResponse. return retryResponse)))))))
         (\<lambda>err. await (invoke onError (OnPaymentError err) err) (\<lambda>_. throw err)))"

text \<open>\<^verbatim>\<open>createMonoPayMiddleware\<close>, lines 16 to 62.\<close>

definition createMonoPayMiddleware ::
  "MonoPayMiddlewareOptions \<Rightarrow> env \<Rightarrow> string \<Rightarrow> addr option \<Rightarrow> response io" where
  "createMonoPayMiddleware options =
     monoPayFetch
       (case rpcUrl options of None \<Rightarrow> ''https://api.devnet.solana.com'' | Some u \<Rightarrow> u)
       (onPaymentStart options) (onPaymentSuccess options) (onPaymentError options)"

text \<open>
  \<^verbatim>\<open>initMonoPay\<close>, lines 118 to 126: \<^verbatim>\<open>typeof window\<close> is \<^verbatim>\<open>"undefined"\<close> where
  \<^verbatim>\<open>window\<close> is not declared and where its value is undefined.
\<close>

definition initMonoPay ::
  "env \<Rightarrow> MonoPayMiddlewareOptions \<Rightarrow>
   error + (env \<Rightarrow> string \<Rightarrow> addr option \<Rightarrow> response io)" where
  "initMonoPay env options =
     (if window env = Undeclared \<or> window env = WindowUndefined then Inl not_in_browser
      else Inr (createMonoPayMiddleware options))"

text \<open>One logical call: the wrapped fetch run on a store, its trace starting empty.\<close>

definition logical_call ::
  "MonoPayMiddlewareOptions \<Rightarrow> env \<Rightarrow> string \<Rightarrow> addr option \<Rightarrow> state \<Rightarrow>
   (error + response) \<times> state" where
  "logical_call options env url fetchOptions s =
     createMonoPayMiddleware options env url fetchOptions (s\<lparr>trace := []\<rparr>)"

section \<open>Observations on a call\<close>

text \<open>Kinds of events.\<close>

fun is_start :: "event \<Rightarrow> bool" where
  "is_start OnPaymentStart = True"
| "is_start ev = False"

fun is_success :: "event \<Rightarrow> bool" where
  "is_success (OnPaymentSuccess x) = True"
| "is_success ev = False"

fun is_error :: "event \<Rightarrow> bool" where
  "is_error (OnPaymentError e) = True"
| "is_error ev = False"


fun is_wallet :: "event \<Rightarrow> bool" where
  "is_wallet ResolveWallet = True"
| "is_wallet Connect = True"
| "is_wallet (SignTransaction tx) = True"
| "is_wallet ev = False"

fun is_signing :: "event \<Rightarrow> bool" where
  "is_signing (SignTransaction tx) = True"
| "is_signing ev = False"

text \<open>Every \<open>q\<close> event of the trace has a \<open>p\<close> event strictly before it.\<close>

fun preceded_by :: "(event \<Rightarrow> bool) \<Rightarrow> (event \<Rightarrow> bool) \<Rightarrow> event list \<Rightarrow> bool" where
  "preceded_by p q [] = True"
| "preceded_by p q (ev # evs) = (if p ev then True else \<not> q ev \<and> preceded_by p q evs)"

text \<open>
  The options object of the first transport call, the store at that call (with the default
  object when \<^verbatim>\<open>fetchOptions\<close> is omitted) and the request the transport sees.
\<close>

definition first_options :: "state \<Rightarrow> addr option \<Rightarrow> addr" where
  "first_options s fetchOptions = (case fetchOptions of None \<Rightarrow> next_addr s | Some a \<Rightarrow> a)"

definition entry :: "state \<Rightarrow> addr option \<Rightarrow> state" where
  "entry s fetchOptions =
     (case fetchOptions of
        None \<Rightarrow>
          s\<lparr>options_at :=
              (options_at s)
              (next_addr s := \<lparr>http_method = None, body = None, headers = None, others = []\<rparr>),
            next_addr := Suc (next_addr s), trace := []\<rparr>
      | Some a \<Rightarrow> s\<lparr>trace := []\<rparr>)"

definition first_request :: "state \<Rightarrow> addr option \<Rightarrow> request" where
  "first_request s fetchOptions = request_of (entry s fetchOptions) (first_options s fetchOptions)"

text \<open>
  A callback seen from outside: the event of its invocation, if it is supplied, and what it
  throws, if anything.
\<close>

definition fired :: "'a option \<Rightarrow> event \<Rightarrow> event list" where
  "fired cb ev = (case cb of None \<Rightarrow> [] | Some f \<Rightarrow> [ev])"

definition outcome :: "('a \<Rightarrow> error option) option \<Rightarrow> 'a \<Rightarrow> error option" where
  "outcome cb arg = (case cb of None \<Rightarrow> None | Some f \<Rightarrow> f arg)"

text \<open>The catch block of lines 57 to 60, run on error \<open>err\<close>.\<close>

definition caught ::
  "(error \<Rightarrow> error option) option \<Rightarrow> error \<Rightarrow> state \<Rightarrow> (error + response) \<times> state" where
  "caught onError err s =
     (Inl (case outcome onError err of None \<Rightarrow> err | Some e \<Rightarrow> e),
      s\<lparr>trace := trace s @ fired onError (OnPaymentError err)\<rparr>)"

text \<open>An empty store, and the outcome and the events of the Acquirer (which never reads the store).\<close>

definition blank :: state where
  "blank = \<lparr>options_at = (\<lambda>a. \<lparr>http_method = None, body = None, headers = None, others = []\<rparr>),
            headers_at = (\<lambda>a. PlainObject []), next_addr = 0, trace = []\<rparr>"

definition acquire_result :: "env \<Rightarrow> PaymentConfig \<Rightarrow> string \<Rightarrow> error + string" where
  "acquire_result env paymentConfig rpc = fst (createAndSignTransaction env paymentConfig rpc blank)"

definition acquire_events :: "env \<Rightarrow> PaymentConfig \<Rightarrow> string \<Rightarrow> event list" where
  "acquire_events env paymentConfig rpc =
     trace (snd (createAndSignTransaction env paymentConfig rpc blank))"

text \<open>The store after the two object literals of the retry, and the request the retry sends.\<close>

definition retry_state :: "state \<Rightarrow> addr \<Rightarrow> string \<Rightarrow> state" where
  "retry_state s a sig =
     s\<lparr>headers_at :=
         (headers_at s)
         (next_addr s :=
            PlainObject
              (AList.update ''x-tx-signature'' sig
                 (spread_headers (map_option (headers_at s) (headers (options_at s a)))))),
       options_at :=
         (options_at s)(Suc (next_addr s) := (options_at s a)\<lparr>headers := Some (next_addr s)\<rparr>),
       next_addr := Suc (Suc (next_addr s))\<rparr>"

definition retry_request :: "state \<Rightarrow> addr \<Rightarrow> string \<Rightarrow> request" where
  "retry_request s a sig = request_of (retry_state s a sig) (Suc (next_addr s))"

text \<open>The steps of lines 40 to 56, after a challenge has been parsed, path by path.\<close>

definition after_challenge ::
  "string \<Rightarrow> (unit \<Rightarrow> error option) option \<Rightarrow> (string \<Rightarrow> error option) option \<Rightarrow>
   (error \<Rightarrow> error option) option \<Rightarrow> env \<Rightarrow> string \<Rightarrow> addr \<Rightarrow> PaymentConfig \<Rightarrow> state \<Rightarrow>
   (error + response) \<times> state" where
  "after_challenge rpc onStart onSuccess onError env url a paymentConfig s2 =
     (let s3 = s2\<lparr>trace := trace s2 @ fired onStart OnPaymentStart\<rparr>;
          s4 = s3\<lparr>trace := trace s3 @ acquire_events env paymentConfig rpc\<rparr> in
      case outcome onStart () of
        Some e \<Rightarrow> caught onError e s3
      | None \<Rightarrow>
         (case acquire_result env paymentConfig rpc of
            Inl e \<Rightarrow> caught onError e s4
          | Inr sig \<Rightarrow>
             (let s5 = s4\<lparr>trace := trace s4 @ fired onSuccess (OnPaymentSuccess sig)\<rparr>;
                  s6 = (retry_state s5 a sig)
                        \<lparr>trace := trace s5 @
                           [Fetch url (Suc (next_addr s5)) (retry_request s5 a sig)]\<rparr> in
              case outcome onSuccess sig of
                Some e \<Rightarrow> caught onError e s5
              | None \<Rightarrow>
                 (case fetch env 1 url (retry_request s5 a sig) of
                    Inl e \<Rightarrow> caught onError e s6
                  | Inr retryResponse \<Rightarrow> (Inr retryResponse, s6)))))"

text \<open>A computation with its two continuations, for stepping through \<open>await\<close> and \<open>try_catch\<close>.\<close>

definition run :: "'a io \<Rightarrow> ('a \<Rightarrow> 'b io) \<Rightarrow> (error \<Rightarrow> 'b io) \<Rightarrow> 'b io" where
  "run m k h s = (case m s of (Inl e, s') \<Rightarrow> h e s' | (Inr x, s') \<Rightarrow> k x s')"

section \<open>An example environment\<close>

text \<open>Base58 with the Bitcoin alphabet, the text form \<^verbatim>\<open>bs58.encode\<close> computes.\<close>

definition base58_alphabet :: string where
  "base58_alphabet = ''123456789ABCDEFGHJKLMNPQRSTUVWXYZabcdefghijkmnopqrstuvwxyz''"

fun base58_digits :: "nat \<Rightarrow> nat list" where
  "base58_digits n = (if n = 0 then [] else base58_digits (n div 58) @ [n mod 58])"

definition base58 :: "8 word list \<Rightarrow> string" where
  "base58 bytes =
     replicate (length (takeWhile (\<lambda>b. b = 0) bytes)) (CHR ''1'') @
     map (\<lambda>d. base58_alphabet ! d) (base58_digits (foldl (\<lambda>n b. n * 256 + unat b) 0 bytes))"

definition example_encode :: "8 word list option \<Rightarrow> error + string" where
  "example_encode sig =
     (case sig of None \<Rightarrow> Inl (Error ''Expected Uint8Array'') | Some bytes \<Rightarrow> Inr (base58 bytes))"

definition example_wallet :: phantom_wallet where
  "example_wallet =
     \<lparr>isConnected = True, connect = None, publicKey = Some (PublicKey [1]),
      signTransaction =
        (\<lambda>tx. Inr \<lparr>recentBlockhash = recentBlockhash tx, feePayer = feePayer tx,
                   instructions = instructions tx, signature = Some [7, 9]\<rparr>)\<rparr>"

definition example_config :: PaymentConfig where
  "example_config =
     \<lparr>requiresPayment = True, serviceId = ''service_123'', wallet = ''ADDR1'',
      priceLamports = 5000000, message = ''Payment required''\<rparr>"

definition challenge :: response where
  "challenge = \<lparr>status = 402, json = Inr example_config, payload = ''''\<rparr>"

definition granted :: response where
  "granted = \<lparr>status = 200, json = Inl (Error ''Unexpected token''), payload = ''data''\<rparr>"

definition example_env :: "(nat \<Rightarrow> string \<Rightarrow> request \<Rightarrow> error + response) \<Rightarrow> env" where
  "example_env transport =
     \<lparr>fetch = transport, window = Window (Some example_wallet),
      new_PublicKey =
        (\<lambda>a. if a = ''ADDR1'' then Inr (PublicKey [2]) else Inl (Error ''Invalid public key input'')),
      new_Connection = (\<lambda>u. None), getLatestBlockhash = (\<lambda>u. Inr ''BH1''),
      SystemProgram_transfer =
        (\<lambda>t. if 0 \<le> lamports t \<and> lamports t < 2 ^ 64 then None
              else Some (Error ''The value is out of range'')),
      bs58_encode = example_encode\<rparr>"

text \<open>Options whose only callback is an onPaymentError that throws.\<close>

definition handler_error :: error where
  "handler_error = Error ''handler failed''"

definition rejecting_options :: MonoPayMiddlewareOptions where
  "rejecting_options =
     \<lparr>rpcUrl = None, onPaymentStart = None, onPaymentSuccess = None,
      onPaymentError = Some (\<lambda>err. Some handler_error)\<rparr>"

definition example_options :: MonoPayMiddlewareOptions where
  "example_options =
     \<lparr>rpcUrl = None, onPaymentStart = Some (\<lambda>u. None), onPaymentSuccess = Some (\<lambda>sig. None),
      onPaymentError = Some (\<lambda>err. None)\<rparr>"

text \<open>Transports: what the server answers to the first call and to the retry.\<close>

definition network_error :: error where
  "network_error = Error ''Failed to fetch''"

definition serve :: "nat \<Rightarrow> string \<Rightarrow> request \<Rightarrow> error + response" where
  "serve n u q = Inr granted"

definition pay_then_serve :: "nat \<Rightarrow> string \<Rightarrow> request \<Rightarrow> error + response" where
  "pay_then_serve n u q = (if n = 0 then Inr challenge else Inr granted)"

definition always_challenge :: "nat \<Rightarrow> string \<Rightarrow> request \<Rightarrow> error + response" where
  "always_challenge n u q = Inr challenge"

definition offline :: "nat \<Rightarrow> string \<Rightarrow> request \<Rightarrow> error + response" where
  "offline n u q = Inl network_error"

definition drop_retry :: "nat \<Rightarrow> string \<Rightarrow> request \<Rightarrow> error + response" where
  "drop_retry n u q = (if n = 0 then Inr challenge else Inl network_error)"

definition parse_error :: error where
  "parse_error = Error ''Unexpected end of JSON input''"

definition malformed_challenge :: "nat \<Rightarrow> string \<Rightarrow> request \<Rightarrow> error + response" where
  "malformed_challenge n u q = Inr \<lparr>status = 402, json = Inl parse_error, payload = []\<rparr>"

text \<open>
  Stores of a caller who passes the options object at address 0, whose headers are the
  headers object at address 0: a plain object, or a \<^verbatim>\<open>Headers\<close> instance.
\<close>

definition caller_options :: fetch_options where
  "caller_options =
     \<lparr>http_method = Some ''POST'', body = Some ''{}'', headers = Some 0, others = [(''mode'', ''cors'')]\<rparr>"

definition plain_store :: state where
  "plain_store =
     blank\<lparr>options_at := (options_at blank)(0 := caller_options),
           headers_at :=
             (headers_at blank)
             (0 := PlainObject [(''Authorization'', ''Bearer t''), (''x-tx-signature'', ''stale'')]),
           next_addr := 1\<rparr>"

definition instance_store :: state where
  "instance_store =
     blank\<lparr>options_at := (options_at blank)(0 := caller_options),
           headers_at := (headers_at blank)(0 := HeadersInstance [(''Authorization'', ''Bearer t'')]),
           next_addr := 1\<rparr>"

text \<open>The transaction the example wallet is asked to sign.\<close>

definition example_tx :: transaction where
  "example_tx =
     \<lparr>recentBlockhash = ''BH1'', feePayer = Some (PublicKey [1]),
      instructions =
        [\<lparr>fromPubkey = Some (PublicKey [1]), toPubkey = PublicKey [2], lamports = 5000000\<rparr>]\<rparr>"

definition devnet :: string where
  "devnet = ''https://api.devnet.solana.com''"

section \<open>Stepping through the code\<close>

declare base58_digits.simps [simp del]

lemma invoke_summary:
  "invoke cb ev arg s = (case outcome cb arg of None \<Rightarrow> Inr () | Some e \<Rightarrow> Inl e,
                         s\<lparr>trace := trace s @ fired cb ev\<rparr>)"
  by (simp add: invoke_def outcome_def fired_def return_def throw_def await_def emit_def
           split: option.split)

lemma retry_summary:
  "retry env url a sig s =
     (fetch env (fetch_count (trace s)) url (retry_request s a sig),
      (retry_state s a sig)
        \<lparr>trace := trace s @ [Fetch url (Suc (next_addr s)) (retry_request s a sig)]\<rparr>)"
  by (simp add: retry_def await_def get_options_def get_headers_def new_headers_def
        new_options_def fetch_io_def retry_request_def retry_state_def request_of_def)

lemma caught_summary:
  "await (invoke onError (OnPaymentError err) err) (\<lambda>_. throw err) s = caught onError err s"
  by (simp add: await_def invoke_summary caught_def throw_def split: option.split)

lemma await_run: "await m k s = run m k throw s"
  by (simp add: await_def run_def throw_def split: prod.split sum.split)

lemma try_catch_run: "try_catch m h s = run m return h s"
  by (simp add: try_catch_def run_def return_def split: prod.split sum.split)

lemma run_await: "run (await m k) k' h' s = run m (\<lambda>x. run (k x) k' h') h' s"
  by (simp add: run_def await_def split: prod.split sum.split)

lemma run_return: "run (return x) k h s = k x s"
  by (simp add: run_def return_def)

lemma run_settle: "run (settle r) k h s = (case r of Inl e \<Rightarrow> h e s | Inr x \<Rightarrow> k x s)"
  by (simp add: run_def settle_def return_def throw_def split: sum.split)

lemma run_fetch_io: "run (fetch_io env url a) k h s =
   (case fetch env (fetch_count (trace s)) url (request_of s a) of
      Inl e \<Rightarrow> h e (s\<lparr>trace := trace s @ [Fetch url a (request_of s a)]\<rparr>)
    | Inr r \<Rightarrow> k r (s\<lparr>trace := trace s @ [Fetch url a (request_of s a)]\<rparr>))"
  by (simp add: run_def fetch_io_def split: sum.split)

lemma run_if: "run (if c then a else b) k h s = (if c then run a k h s else run b k h s)"
  by simp

lemma run_invoke: "run (invoke cb ev arg) k h s =
   (case outcome cb arg of
      None \<Rightarrow> k () (s\<lparr>trace := trace s @ fired cb ev\<rparr>)
    | Some e \<Rightarrow> h e (s\<lparr>trace := trace s @ fired cb ev\<rparr>))"
  by (simp add: run_def invoke_summary split: option.split)

lemma run_emit: "run (emit ev) k h s = k () (s\<lparr>trace := trace s @ [ev]\<rparr>)"
  by (simp add: run_def emit_def)

lemma run_throw: "run (throw e) k h s = h e s"
  by (simp add: run_def throw_def)

lemma run_case_option: "run (case x of None \<Rightarrow> a | Some y \<Rightarrow> b y) k h s =
   (case x of None \<Rightarrow> run a k h s | Some y \<Rightarrow> run (b y) k h s)"
  by (simp split: option.split)

lemma run_self: "m s = run m return throw s"
  by (simp add: run_def return_def throw_def split: prod.split sum.split)

lemma createAndSignTransaction_run:
  "createAndSignTransaction env paymentConfig rpc s =
     (let s0 = s\<lparr>trace := trace s @ [ResolveWallet]\<rparr> in
      if window env = Undeclared then (Inl window_not_defined, s0)
      else
      case phantom_solana env of
        None \<Rightarrow> (Inl phantom_not_found, s0)
      | Some phantom_w \<Rightarrow>
         (let s1 = (if isConnected phantom_w then s0 else s0\<lparr>trace := trace s0 @ [Connect]\<rparr>);
              s2 = s1\<lparr>trace := trace s1 @ [NewConnection rpc]\<rparr>;
              s3 = s2\<lparr>trace := trace s2 @ [GetLatestBlockhash rpc]\<rparr>
          in
          if \<not> isConnected phantom_w \<and> connect phantom_w \<noteq> None
          then (Inl (the (connect phantom_w)), s1)
          else
           (case new_PublicKey env (wallet paymentConfig) of
              Inl e \<Rightarrow> (Inl e, s1)
            | Inr payee \<Rightarrow>
               (case new_Connection env rpc of
                  Some e \<Rightarrow> (Inl e, s2)
                | None \<Rightarrow>
                   (case getLatestBlockhash env rpc of
                      Inl e \<Rightarrow> (Inl e, s3)
                    | Inr blockhash \<Rightarrow>
                       (let transfer =
                              \<lparr>fromPubkey = publicKey phantom_w, toPubkey = payee,
                               lamports = priceLamports paymentConfig\<rparr>;
                            tx = \<lparr>recentBlockhash = blockhash, feePayer = publicKey phantom_w,
                                  instructions = [transfer]\<rparr>;
                            s4 = s3\<lparr>trace := trace s3 @ [SignTransaction tx]\<rparr>
                        in
                        case SystemProgram_transfer env transfer of
                          Some e \<Rightarrow> (Inl e, s3)
                        | None \<Rightarrow>
                           (case signTransaction phantom_w tx of
                              Inl e \<Rightarrow> (Inl e, s4)
                            | Inr signed_tx \<Rightarrow>
                               (case bs58_encode env (signature signed_tx) of
                                  Inl e \<Rightarrow> (Inl e, s4)
                                | Inr token \<Rightarrow> (Inr token, s4)))))))))"
  unfolding createAndSignTransaction_def
  by (subst run_self)
     (simp add: run_await run_emit run_throw run_return run_settle run_if run_case_option
        return_def throw_def Let_def split: option.split sum.split)


lemma createAndSignTransaction_summary:
  "createAndSignTransaction env paymentConfig rpc s =
     (acquire_result env paymentConfig rpc,
      s\<lparr>trace := trace s @ acquire_events env paymentConfig rpc\<rparr>)"
  by (simp add: acquire_result_def acquire_events_def createAndSignTransaction_run blank_def
        Let_def split: option.split sum.split)

lemma acquire_events_filter:
  "filter is_fetch (acquire_events env paymentConfig rpc) = []"
  "filter is_start (acquire_events env paymentConfig rpc) = []"
  "filter is_success (acquire_events env paymentConfig rpc) = []"
  "filter is_error (acquire_events env paymentConfig rpc) = []"
  by (simp_all add: acquire_events_def createAndSignTransaction_run blank_def Let_def
        split: option.split sum.split)

lemma run_createAndSignTransaction:
  "run (createAndSignTransaction env paymentConfig rpc) k h s =
   (case acquire_result env paymentConfig rpc of
      Inl e \<Rightarrow> h e (s\<lparr>trace := trace s @ acquire_events env paymentConfig rpc\<rparr>)
    | Inr x \<Rightarrow> k x (s\<lparr>trace := trace s @ acquire_events env paymentConfig rpc\<rparr>))"
  by (simp add: run_def createAndSignTransaction_summary split: sum.split)

lemma run_retry:
  "run (retry env url a sig) k h s =
   (case fetch env (fetch_count (trace s)) url (retry_request s a sig) of
      Inl e \<Rightarrow> h e ((retry_state s a sig)
        \<lparr>trace := trace s @ [Fetch url (Suc (next_addr s)) (retry_request s a sig)]\<rparr>)
    | Inr r \<Rightarrow> k r ((retry_state s a sig)
        \<lparr>trace := trace s @ [Fetch url (Suc (next_addr s)) (retry_request s a sig)]\<rparr>))"
  by (simp add: run_def retry_summary split: sum.split)

lemmas run_simps = try_catch_run run_await run_return
  run_settle run_fetch_io run_if run_invoke run_createAndSignTransaction run_retry
  caught_summary

lemma fetch_count_simps:
  "fetch_count [] = 0"
  "fetch_count (xs @ ys) = fetch_count xs + fetch_count ys"
  "fetch_count (Fetch u a q # xs) = Suc (fetch_count xs)"
  by (simp_all add: fetch_count_def)

lemma fetch_count_acquire_events: "fetch_count (acquire_events env paymentConfig rpc) = 0"
  by (simp add: fetch_count_def acquire_events_filter)

lemma fetch_count_fired:
  "fetch_count (fired cb OnPaymentStart) = 0"
  "fetch_count (fired cb' (OnPaymentSuccess x)) = 0"
  "fetch_count (fired cb'' (OnPaymentError e)) = 0"
  by (simp_all add: fetch_count_def fired_def split: option.split)

lemmas fetch_counts = fetch_count_simps fetch_count_acquire_events fetch_count_fired

lemma monoPayFetch_paths:
  "monoPayFetch rpc onStart onSuccess onError env url fetchOptions (s\<lparr>trace := []\<rparr>) =
     (let s1 = entry s fetchOptions; a = first_options s fetchOptions;
          s2 = s1\<lparr>trace := [Fetch url a (first_request s fetchOptions)]\<rparr> in
      case fetch env 0 url (first_request s fetchOptions) of
        Inl e \<Rightarrow> caught onError e s2
      | Inr initialResponse \<Rightarrow>
          if status initialResponse \<noteq> 402 then (Inr initialResponse, s2)
          else
           (case json initialResponse of
              Inl e \<Rightarrow> caught onError e s2
            | Inr paymentConfig \<Rightarrow>
                after_challenge rpc onStart onSuccess onError env url a paymentConfig s2))"
proof (cases fetchOptions)
  case None
  show ?thesis
    unfolding monoPayFetch_def after_challenge_def None
    by (simp add: await_def [of "new_options x" for x] new_options_def run_simps Let_def
          return_def entry_def first_options_def first_request_def fetch_counts request_of_def
          split: sum.split option.split)
next
  case (Some a)
  show ?thesis
    unfolding monoPayFetch_def after_challenge_def Some
    by (simp add: await_def [of "return x" for x] return_def run_simps Let_def
          entry_def first_options_def first_request_def fetch_counts request_of_def
          split: sum.split option.split)
qed

lemma logical_call_paths:
  "logical_call options env url fetchOptions s =
     (let s2 = (entry s fetchOptions)
            \<lparr>trace := [Fetch url (first_options s fetchOptions) (first_request s fetchOptions)]\<rparr>
      in
      case fetch env 0 url (first_request s fetchOptions) of
        Inl e \<Rightarrow> caught (onPaymentError options) e s2
      | Inr initialResponse \<Rightarrow>
          if status initialResponse \<noteq> 402 then (Inr initialResponse, s2)
          else
           (case json initialResponse of
              Inl e \<Rightarrow> caught (onPaymentError options) e s2
            | Inr paymentConfig \<Rightarrow>
                after_challenge
                  (case rpcUrl options of None \<Rightarrow> ''https://api.devnet.solana.com'' | Some u \<Rightarrow> u)
                  (onPaymentStart options) (onPaymentSuccess options) (onPaymentError options)
                  env url (first_options s fetchOptions) paymentConfig s2))"
  by (simp add: logical_call_def createMonoPayMiddleware_def monoPayFetch_paths Let_def)

lemma filter_fired: "filter P (fired cb ev) = (if P ev then fired cb ev else [])"
  by (simp add: fired_def split: option.split)

lemma retry_request_trace [simp]: "retry_request (s\<lparr>trace := t\<rparr>) a sig = retry_request s a sig"
  by (simp add: retry_request_def retry_state_def request_of_def)

lemma retry_state_trace [simp]:
  "retry_state (s\<lparr>trace := t\<rparr>) a sig = (retry_state s a sig)\<lparr>trace := t\<rparr>"
  by (simp add: retry_state_def)

lemma caught_trace:
  "caught onError e (s\<lparr>trace := t\<rparr>) =
     (Inl (case outcome onError e of None \<Rightarrow> e | Some e' \<Rightarrow> e'),
      s\<lparr>trace := t @ fired onError (OnPaymentError e)\<rparr>)"
  by (simp add: caught_def)

lemma logical_call_cases
  [case_names transport_failed passthrough malformed start_threw acquire_failed success_threw
     retry_failed retried]:
  fixes options env url fetchOptions s
  defines "R \<equiv> logical_call options env url fetchOptions s"
    and "s1 \<equiv> entry s fetchOptions"
    and "a \<equiv> first_options s fetchOptions"
    and "q \<equiv> first_request s fetchOptions"
    and "rpc \<equiv> (case rpcUrl options of None \<Rightarrow> ''https://api.devnet.solana.com'' | Some u \<Rightarrow> u)"
    and "onStart \<equiv> onPaymentStart options"
    and "onSuccess \<equiv> onPaymentSuccess options"
    and "onError \<equiv> onPaymentError options"
  obtains
    (transport_failed) e where
      "fetch env 0 url q = Inl e"
      "R = caught onError e (s1\<lparr>trace := [Fetch url a q]\<rparr>)"
  | (passthrough) r where
      "fetch env 0 url q = Inr r" "status r \<noteq> 402"
      "R = (Inr r, s1\<lparr>trace := [Fetch url a q]\<rparr>)"
  | (malformed) r e where
      "fetch env 0 url q = Inr r" "status r = 402" "json r = Inl e"
      "R = caught onError e (s1\<lparr>trace := [Fetch url a q]\<rparr>)"
  | (start_threw) r pc e where
      "fetch env 0 url q = Inr r" "status r = 402" "json r = Inr pc"
      "outcome onStart () = Some e"
      "R = caught onError e (s1\<lparr>trace := Fetch url a q # fired onStart OnPaymentStart\<rparr>)"
  | (acquire_failed) r pc e where
      "fetch env 0 url q = Inr r" "status r = 402" "json r = Inr pc"
      "outcome onStart () = None" "acquire_result env pc rpc = Inl e"
      "R = caught onError e
             (s1\<lparr>trace := Fetch url a q # fired onStart OnPaymentStart @
                            acquire_events env pc rpc\<rparr>)"
  | (success_threw) r pc sig e where
      "fetch env 0 url q = Inr r" "status r = 402" "json r = Inr pc"
      "outcome onStart () = None" "acquire_result env pc rpc = Inr sig"
      "outcome onSuccess sig = Some e"
      "R = caught onError e
             (s1\<lparr>trace := Fetch url a q # fired onStart OnPaymentStart @
                            acquire_events env pc rpc @
                            fired onSuccess (OnPaymentSuccess sig)\<rparr>)"
  | (retry_failed) r pc sig e where
      "fetch env 0 url q = Inr r" "status r = 402" "json r = Inr pc"
      "outcome onStart () = None" "acquire_result env pc rpc = Inr sig"
      "outcome onSuccess sig = None"
      "fetch env 1 url (retry_request s1 a sig) = Inl e"
      "R = caught onError e
             ((retry_state s1 a sig)
                \<lparr>trace := Fetch url a q # fired onStart OnPaymentStart @
                            acquire_events env pc rpc @
                            fired onSuccess (OnPaymentSuccess sig) @
                            [Fetch url (Suc (next_addr s1)) (retry_request s1 a sig)]\<rparr>)"
  | (retried) r pc sig r' where
      "fetch env 0 url q = Inr r" "status r = 402" "json r = Inr pc"
      "outcome onStart () = None" "acquire_result env pc rpc = Inr sig"
      "outcome onSuccess sig = None"
      "fetch env 1 url (retry_request s1 a sig) = Inr r'"
      "R = (Inr r',
            (retry_state s1 a sig)
                \<lparr>trace := Fetch url a q # fired onStart OnPaymentStart @
                            acquire_events env pc rpc @
                            fired onSuccess (OnPaymentSuccess sig) @
                            [Fetch url (Suc (next_addr s1)) (retry_request s1 a sig)]\<rparr>)"
proof (cases "fetch env 0 url q")
  case (Inl e)
  then show ?thesis
    using transport_failed [of e] unfolding R_def s1_def a_def q_def onError_def
    by (simp add: logical_call_paths)
next
  case (Inr r)
  note first = this
  show ?thesis
  proof (cases "status r = 402")
    case False
    then show ?thesis
      using first passthrough [of r] unfolding R_def s1_def a_def q_def
      by (simp add: logical_call_paths)
  next
    case True
    note challenge = this
    show ?thesis
    proof (cases "json r")
      case (Inl e)
      then show ?thesis
        using first challenge malformed [of r e] unfolding R_def s1_def a_def q_def onError_def
        by (simp add: logical_call_paths)
    next
      case (Inr pc)
      have R: "R = after_challenge rpc onStart onSuccess onError env url a pc
                     (s1\<lparr>trace := [Fetch url a q]\<rparr>)"
        using first challenge Inr
        unfolding R_def s1_def a_def q_def onError_def onStart_def onSuccess_def rpc_def
        by (simp add: logical_call_paths)
      show ?thesis
      proof (cases "outcome onStart ()")
        case (Some e)
        then show ?thesis
          using first challenge Inr start_threw [of r pc e] R
          by (simp add: after_challenge_def Let_def)
      next
        case None
        note started = this
        show ?thesis
        proof (cases "acquire_result env pc rpc")
          case (Inl e)
          then show ?thesis
            using first challenge Inr started acquire_failed [of r pc e] R
            by (simp add: after_challenge_def Let_def)
        next
          case (Inr sig)
          note acquired = this
          show ?thesis
          proof (cases "outcome onSuccess sig")
            case (Some e)
            then show ?thesis
              using first challenge \<open>json r = Inr pc\<close> started acquired
                success_threw [of r pc sig e] R
              by (simp add: after_challenge_def Let_def)
          next
            case None
            note notified = this
            show ?thesis
            proof (cases "fetch env 1 url (retry_request s1 a sig)")
              case (Inl e)
              then show ?thesis
                using first challenge \<open>json r = Inr pc\<close> started acquired notified
                  retry_failed [of r pc sig e] R
                by (simp add: after_challenge_def Let_def)
            next
              case (Inr r')
              then show ?thesis
                using first challenge \<open>json r = Inr pc\<close> started acquired notified
                  retried [of r pc sig r'] R
                by (simp add: after_challenge_def Let_def)
            qed
          qed
        qed
      qed
    qed
  qed
qed



lemmas leaf_simps = caught_trace fetch_count_def acquire_events_filter filter_fired

lemma acquire_without_wallet:
  assumes "phantom_solana env = None"
  shows "acquire_result env paymentConfig rpc =
           Inl (if window env = Undeclared then window_not_defined else phantom_not_found)"
    and "acquire_events env paymentConfig rpc = [ResolveWallet]"
  using assms
  by (simp_all add: acquire_result_def acquire_events_def createAndSignTransaction_run blank_def
        Let_def)

lemma acquire_events_cycle:
  "count_list (acquire_events env paymentConfig rpc) ResolveWallet = 1"
  "length (filter is_signing (acquire_events env paymentConfig rpc)) \<le> Suc 0"
  by (simp_all add: acquire_events_def createAndSignTransaction_run blank_def Let_def
        split: option.split sum.split)

lemma fired_no_cycle:
  "count_list (fired cb OnPaymentStart) ResolveWallet = 0"
  "count_list (fired cb' (OnPaymentSuccess x)) ResolveWallet = 0"
  "count_list (fired cb'' (OnPaymentError e)) ResolveWallet = 0"
  by (simp_all add: fired_def split: option.split)

lemma preceded_by_append:
  "filter p xs = [] \<Longrightarrow> preceded_by p q (xs @ ys) = (filter q xs = [] \<and> preceded_by p q ys)"
  by (induction xs) (auto split: if_splits)

lemma acquire_events_blockhash:
  "GetLatestBlockhash u \<in> set (acquire_events env paymentConfig rpc) \<Longrightarrow> u = rpc"
  by (auto simp add: acquire_events_def createAndSignTransaction_run blank_def Let_def
        split: option.splits sum.splits if_splits)

lemma fired_no_blockhash:
  "GetLatestBlockhash u \<notin> set (fired cb OnPaymentStart)"
  "GetLatestBlockhash u \<notin> set (fired cb' (OnPaymentSuccess x))"
  "GetLatestBlockhash u \<notin> set (fired cb'' (OnPaymentError e))"
  by (simp_all add: fired_def split: option.split)

lemma acquire_ignores_fetch:
  "acquire_result (env\<lparr>fetch := f\<rparr>) paymentConfig rpc = acquire_result env paymentConfig rpc"
  "acquire_events (env\<lparr>fetch := f\<rparr>) paymentConfig rpc = acquire_events env paymentConfig rpc"
  by (simp_all add: acquire_result_def acquire_events_def createAndSignTransaction_run
        phantom_solana_def cong: option.case_cong sum.case_cong if_cong)

lemma acquire_ignores_fields:
  "acquire_result env (paymentConfig\<lparr>requiresPayment := rp, serviceId := sid, message := msg\<rparr>) rpc =
     acquire_result env paymentConfig rpc"
  "acquire_events env (paymentConfig\<lparr>requiresPayment := rp, serviceId := sid, message := msg\<rparr>) rpc =
     acquire_events env paymentConfig rpc"
  by (simp_all add: acquire_result_def acquire_events_def createAndSignTransaction_run
        phantom_solana_def cong: option.case_cong sum.case_cong if_cong)

lemma after_challenge_ignores:
  "after_challenge rpc onStart onSuccess onError
     (env\<lparr>fetch := (\<lambda>n u q. if n = 0 then first else fetch env n u q)\<rparr>) url a
     (paymentConfig\<lparr>requiresPayment := rp, serviceId := sid, message := msg\<rparr>) s2 =
   after_challenge rpc onStart onSuccess onError env url a paymentConfig s2"
  by (simp add: after_challenge_def acquire_ignores_fetch acquire_ignores_fields Let_def
        cong: option.case_cong sum.case_cong)

section \<open>The example environment, evaluated\<close>

lemma base58_example: "base58 [7, 9] = ''Y4''"
  by code_simp

lemma example_acquire:
  "createAndSignTransaction (example_env transport) example_config rpc s =
     (Inr ''Y4'',
      s\<lparr>trace := trace s @ [ResolveWallet, NewConnection rpc, GetLatestBlockhash rpc,
                           SignTransaction example_tx]\<rparr>)"
  by (simp add: createAndSignTransaction_run phantom_solana_def example_env_def
        example_wallet_def example_config_def example_encode_def example_tx_def base58_example)

lemma example_acquire_result [simp]:
  "acquire_result (example_env transport) example_config rpc = Inr ''Y4''"
  by (simp add: acquire_result_def example_acquire)

lemma example_acquire_events [simp]:
  "acquire_events (example_env transport) example_config rpc =
     [ResolveWallet, NewConnection rpc, GetLatestBlockhash rpc, SignTransaction example_tx]"
  by (simp add: acquire_events_def example_acquire blank_def)

lemma example_env_simps [simp]:
  "fetch (example_env transport) = transport"
  "fetch (example_env transport\<lparr>window := w\<rparr>) = transport"
  "window (example_env transport\<lparr>window := w\<rparr>) = w"
  "phantom_solana (example_env transport) = Some example_wallet"
  "phantom_solana (example_env transport\<lparr>window := Window p\<rparr>) = p"
  "phantom_solana (example_env transport\<lparr>window := Undeclared\<rparr>) = None"
  by (simp_all add: example_env_def phantom_solana_def)

lemma example_options_simps [simp]:
  "rpcUrl example_options = None"
  "outcome (onPaymentStart example_options) u = None"
  "outcome (onPaymentSuccess example_options) x = None"
  "outcome (onPaymentError example_options) e = None"
  "fired (onPaymentStart example_options) ev = [ev]"
  "fired (onPaymentSuccess example_options) ev = [ev]"
  "fired (onPaymentError example_options) ev = [ev]"
  by (simp_all add: example_options_def outcome_def fired_def)

lemma rejecting_options_simps [simp]:
  "rpcUrl rejecting_options = None"
  "outcome (onPaymentStart rejecting_options) u = None"
  "outcome (onPaymentSuccess rejecting_options) x = None"
  "outcome (onPaymentError rejecting_options) e = Some handler_error"
  "fired (onPaymentStart rejecting_options) ev = []"
  "fired (onPaymentSuccess rejecting_options) ev = []"
  "fired (onPaymentError rejecting_options) ev = [ev]"
  by (simp_all add: rejecting_options_def outcome_def fired_def)

lemma no_wallet_acquire [simp]:
  "acquire_result (example_env transport\<lparr>window := Window None\<rparr>) paymentConfig rpc =
     Inl phantom_not_found"
  "acquire_result (example_env transport\<lparr>window := Undeclared\<rparr>) paymentConfig rpc =
     Inl window_not_defined"
  "acquire_events (example_env transport\<lparr>window := Window None\<rparr>) paymentConfig rpc =
     [ResolveWallet]"
  "acquire_events (example_env transport\<lparr>window := Undeclared\<rparr>) paymentConfig rpc =
     [ResolveWallet]"
  by (simp_all add: acquire_without_wallet)

lemma example_challenge_simps [simp]:
  "status challenge = 402" "json challenge = Inr example_config"
  "status granted = 200" "challenge \<noteq> granted"
  by (simp_all add: challenge_def granted_def)

lemma omitted_options_simps [simp]:
  "first_options blank None = 0"
  "first_request blank None =
     \<lparr>req_method = None, req_body = None, req_headers = None, req_others = []\<rparr>"
  "next_addr (entry blank None) = 1"
  "retry_request (entry blank None) 0 sig =
     \<lparr>req_method = None, req_body = None,
      req_headers = Some (PlainObject [(''x-tx-signature'', sig)]), req_others = []\<rparr>"
  by (simp_all add: first_options_def first_request_def entry_def retry_request_def
        retry_state_def request_of_def blank_def)

lemma plain_store_simps [simp]:
  "first_options plain_store (Some 0) = 0"
  "first_request plain_store (Some 0) =
     \<lparr>req_method = Some ''POST'', req_body = Some ''{}'',
      req_headers =
        Some (PlainObject [(''Authorization'', ''Bearer t''), (''x-tx-signature'', ''stale'')]),
      req_others = [(''mode'', ''cors'')]\<rparr>"
  "next_addr (entry plain_store (Some 0)) = 1"
  "retry_request (entry plain_store (Some 0)) 0 sig =
     \<lparr>req_method = Some ''POST'', req_body = Some ''{}'',
      req_headers =
        Some (PlainObject [(''Authorization'', ''Bearer t''), (''x-tx-signature'', sig)]),
      req_others = [(''mode'', ''cors'')]\<rparr>"
  by (simp_all add: first_options_def first_request_def entry_def retry_request_def
        retry_state_def request_of_def plain_store_def caller_options_def blank_def)

lemma instance_store_simps [simp]:
  "first_options instance_store (Some 0) = 0"
  "first_request instance_store (Some 0) =
     \<lparr>req_method = Some ''POST'', req_body = Some ''{}'',
      req_headers = Some (HeadersInstance [(''Authorization'', ''Bearer t'')]),
      req_others = [(''mode'', ''cors'')]\<rparr>"
  "next_addr (entry instance_store (Some 0)) = 1"
  "retry_request (entry instance_store (Some 0)) 0 sig =
     \<lparr>req_method = Some ''POST'', req_body = Some ''{}'',
      req_headers = Some (PlainObject [(''x-tx-signature'', sig)]),
      req_others = [(''mode'', ''cors'')]\<rparr>"
  by (simp_all add: first_options_def first_request_def entry_def retry_request_def
        retry_state_def request_of_def instance_store_def caller_options_def blank_def)

lemmas run_example = logical_call_paths after_challenge_def caught_trace Let_def
  serve_def pay_then_serve_def always_challenge_def offline_def drop_retry_def
  malformed_challenge_def

lemma paid_run:
  "fst (logical_call example_options (example_env pay_then_serve) ''/x'' None blank) = Inr granted"
  "trace (snd (logical_call example_options (example_env pay_then_serve) ''/x'' None blank)) =
     [Fetch ''/x'' 0 \<lparr>req_method = None, req_body = None, req_headers = None, req_others = []\<rparr>,
      OnPaymentStart, ResolveWallet, NewConnection devnet, GetLatestBlockhash devnet,
      SignTransaction example_tx, OnPaymentSuccess ''Y4'',
      Fetch ''/x'' 2
        \<lparr>req_method = None, req_body = None,
         req_headers = Some (PlainObject [(''x-tx-signature'', ''Y4'')]), req_others = []\<rparr>]"
  by (simp_all add: run_example devnet_def)


lemma served_run:
  "trace (snd (logical_call example_options (example_env serve) ''/y'' None blank)) =
     [Fetch ''/y'' 0 \<lparr>req_method = None, req_body = None, req_headers = None, req_others = []\<rparr>]"
  by (simp add: run_example)

lemma twice_challenged_run:
  "trace (snd (logical_call example_options (example_env always_challenge) ''/x'' None blank)) =
     [Fetch ''/x'' 0 \<lparr>req_method = None, req_body = None, req_headers = None, req_others = []\<rparr>,
      OnPaymentStart, ResolveWallet, NewConnection devnet, GetLatestBlockhash devnet,
      SignTransaction example_tx, OnPaymentSuccess ''Y4'',
      Fetch ''/x'' 2
        \<lparr>req_method = None, req_body = None,
         req_headers = Some (PlainObject [(''x-tx-signature'', ''Y4'')]), req_others = []\<rparr>]"
  by (simp add: run_example devnet_def)

lemma dropped_retry_run:
  "fst (logical_call example_options (example_env drop_retry) ''/x'' None blank) =
     Inl network_error"
  "trace (snd (logical_call example_options (example_env drop_retry) ''/x'' None blank)) =
     [Fetch ''/x'' 0 \<lparr>req_method = None, req_body = None, req_headers = None, req_others = []\<rparr>,
      OnPaymentStart, ResolveWallet, NewConnection devnet, GetLatestBlockhash devnet,
      SignTransaction example_tx, OnPaymentSuccess ''Y4'',
      Fetch ''/x'' 2
        \<lparr>req_method = None, req_body = None,
         req_headers = Some (PlainObject [(''x-tx-signature'', ''Y4'')]), req_others = []\<rparr>,
      OnPaymentError network_error]"
  by (simp_all add: run_example devnet_def)

lemma offline_run:
  "fst (logical_call example_options (example_env offline) ''/x'' None blank) = Inl network_error"
  "trace (snd (logical_call example_options (example_env offline) ''/x'' None blank)) =
     [Fetch ''/x'' 0 \<lparr>req_method = None, req_body = None, req_headers = None, req_others = []\<rparr>,
      OnPaymentError network_error]"
  by (simp_all add: run_example)

lemma malformed_run:
  "trace (snd (logical_call example_options (example_env malformed_challenge) ''/x'' None blank)) =
     [Fetch ''/x'' 0 \<lparr>req_method = None, req_body = None, req_headers = None, req_others = []\<rparr>,
      OnPaymentError parse_error]"
  by (simp add: run_example)

lemma plain_store_run:
  "trace (snd (logical_call example_options (example_env pay_then_serve) ''/x'' (Some 0)
                 plain_store)) =
     [Fetch ''/x'' 0
        \<lparr>req_method = Some ''POST'', req_body = Some ''{}'',
         req_headers =
           Some (PlainObject [(''Authorization'', ''Bearer t''), (''x-tx-signature'', ''stale'')]),
         req_others = [(''mode'', ''cors'')]\<rparr>,
      OnPaymentStart, ResolveWallet, NewConnection devnet, GetLatestBlockhash devnet,
      SignTransaction example_tx, OnPaymentSuccess ''Y4'',
      Fetch ''/x'' 2
        \<lparr>req_method = Some ''POST'', req_body = Some ''{}'',
         req_headers =
           Some (PlainObject [(''Authorization'', ''Bearer t''), (''x-tx-signature'', ''Y4'')]),
         req_others = [(''mode'', ''cors'')]\<rparr>]"
  by (simp add: run_example devnet_def)

section \<open>The claims\<close>

subsection \<open>C1: onPaymentSuccess and onPaymentError\<close>

text \<open>
  As stated, C1 fails: when signing succeeds and the retried transport call fails, the
  success callback has already fired and the catch block fires the error callback too.
\<close>

theorem success_then_error_counterexample:
  "fetch (example_env drop_retry) 0 ''/x'' (first_request blank None) = Inr challenge \<and>
   status challenge = 402 \<and>
   filter is_success
     (trace (snd (logical_call example_options (example_env drop_retry) ''/x'' None blank))) =
     [OnPaymentSuccess ''Y4''] \<and>
   filter is_error
     (trace (snd (logical_call example_options (example_env drop_retry) ''/x'' None blank))) =
     [OnPaymentError network_error]"
  by (simp add: dropped_retry_run) (simp add: drop_retry_def)

text \<open>
  C1, amended. In a call whose initial response is a 402 challenge, with onPaymentSuccess and
  onPaymentError both supplied and onPaymentSuccess not throwing: each of the two is invoked
  at most once and at least one of them is invoked; onPaymentError is invoked exactly when
  the call rejects, and onPaymentSuccess exactly when the retried request is issued. So
  exactly one of them fires unless the retried transport call fails, in which case both do:
  once the retried request is issued, the call rejects exactly when that transport call
  fails, and onPaymentError then fires after onPaymentSuccess.
\<close>

theorem success_or_error:
  assumes "fetch env 0 url (first_request s fetchOptions) = Inr resp"
    and "status resp = 402"
    and "onPaymentSuccess options = Some f" and "\<forall>x. f x = None"
    and "onPaymentError options = Some g"
  shows "length (filter is_success (trace (snd (logical_call options env url fetchOptions s)))) \<le> 1 \<and>
         length (filter is_error (trace (snd (logical_call options env url fetchOptions s)))) \<le> 1 \<and>
         1 \<le> length (filter is_success (trace (snd (logical_call options env url fetchOptions s)))) +
             length (filter is_error (trace (snd (logical_call options env url fetchOptions s)))) \<and>
         (length (filter is_error (trace (snd (logical_call options env url fetchOptions s)))) = 1
            \<longleftrightarrow> isl (fst (logical_call options env url fetchOptions s))) \<and>
         (length (filter is_success (trace (snd (logical_call options env url fetchOptions s)))) = 1
            \<longleftrightarrow> fetch_count (trace (snd (logical_call options env url fetchOptions s))) = 2) \<and>
         (filter is_fetch (trace (snd (logical_call options env url fetchOptions s))) =
            [ev, Fetch u a q] \<longrightarrow>
          (isl (fst (logical_call options env url fetchOptions s)) \<longleftrightarrow> isl (fetch env 1 u q)) \<and>
          preceded_by is_success is_error
            (trace (snd (logical_call options env url fetchOptions s))))"
  using assms
  by (cases rule: logical_call_cases
        [where options = options and env = env and url = url and fetchOptions = fetchOptions
           and s = s])
     (auto simp add: leaf_simps fired_def outcome_def preceded_by_append)

theorem success_or_error_witness:
  "fetch (example_env pay_then_serve) 0 ''/x'' (first_request blank None) = Inr challenge \<and>
   status challenge = 402 \<and>
   onPaymentSuccess example_options = Some (\<lambda>sig. None) \<and>
   onPaymentError example_options = Some (\<lambda>err. None) \<and>
   length (filter is_success
     (trace (snd (logical_call example_options (example_env pay_then_serve) ''/x'' None blank)))) = 1 \<and>
   length (filter is_error
     (trace (snd (logical_call example_options (example_env pay_then_serve) ''/x'' None blank)))) = 0 \<and>
   \<not> isl (fst (logical_call example_options (example_env pay_then_serve) ''/x'' None blank)) \<and>
   fetch (example_env drop_retry) 0 ''/x'' (first_request blank None) = Inr challenge \<and>
   filter is_fetch
     (trace (snd (logical_call example_options (example_env drop_retry) ''/x'' None blank))) =
     [Fetch ''/x'' 0 \<lparr>req_method = None, req_body = None, req_headers = None, req_others = []\<rparr>,
      Fetch ''/x'' 2
        \<lparr>req_method = None, req_body = None,
         req_headers = Some (PlainObject [(''x-tx-signature'', ''Y4'')]), req_others = []\<rparr>] \<and>
   isl (fetch (example_env drop_retry) 1 ''/x''
          \<lparr>req_method = None, req_body = None,
           req_headers = Some (PlainObject [(''x-tx-signature'', ''Y4'')]), req_others = []\<rparr>) \<and>
   isl (fst (logical_call example_options (example_env drop_retry) ''/x'' None blank)) \<and>
   preceded_by is_success is_error
     (trace (snd (logical_call example_options (example_env drop_retry) ''/x'' None blank)))"
proof -
  have first: "fetch (example_env pay_then_serve) 0 ''/x'' (first_request blank None) = Inr challenge"
    by (simp add: pay_then_serve_def)
  have success: "onPaymentSuccess example_options = Some (\<lambda>sig. None)"
    and error: "onPaymentError example_options = Some (\<lambda>err. None)"
    by (simp_all add: example_options_def)
  from success_or_error [OF first _ success _ error]
  have served:
    "length (filter is_success
       (trace (snd (logical_call example_options (example_env pay_then_serve) ''/x'' None blank)))) = 1"
    "length (filter is_error
       (trace (snd (logical_call example_options (example_env pay_then_serve) ''/x'' None blank)))) = 0"
    "\<not> isl (fst (logical_call example_options (example_env pay_then_serve) ''/x'' None blank))"
    by (simp_all add: paid_run(2) fetch_count_def)
  have first': "fetch (example_env drop_retry) 0 ''/x'' (first_request blank None) = Inr challenge"
    by (simp add: drop_retry_def)
  have fetches:
    "filter is_fetch
       (trace (snd (logical_call example_options (example_env drop_retry) ''/x'' None blank))) =
       [Fetch ''/x'' 0 \<lparr>req_method = None, req_body = None, req_headers = None, req_others = []\<rparr>,
        Fetch ''/x'' 2
          \<lparr>req_method = None, req_body = None,
           req_headers = Some (PlainObject [(''x-tx-signature'', ''Y4'')]), req_others = []\<rparr>]"
    by (simp add: dropped_retry_run)
  have failed:
    "isl (fetch (example_env drop_retry) 1 ''/x''
            \<lparr>req_method = None, req_body = None,
             req_headers = Some (PlainObject [(''x-tx-signature'', ''Y4'')]), req_others = []\<rparr>)"
    by (simp add: drop_retry_def)
  from success_or_error
    [OF first' _ success _ error, where u = "''/x''" and a = 2
       and ev = "Fetch ''/x'' 0
         \<lparr>req_method = None, req_body = None, req_headers = None, req_others = []\<rparr>"
       and q = "\<lparr>req_method = None, req_body = None,
         req_headers = Some (PlainObject [(''x-tx-signature'', ''Y4'')]), req_others = []\<rparr>"]
  have dropped:
    "isl (fst (logical_call example_options (example_env drop_retry) ''/x'' None blank))"
    "preceded_by is_success is_error
       (trace (snd (logical_call example_options (example_env drop_retry) ''/x'' None blank)))"
    using fetches failed by simp_all
  show ?thesis
    using first success error served first' fetches failed dropped by simp
qed

subsection \<open>C2: responses other than 402\<close>

text \<open>
  C2. When the initial response has a status other than 402, the wrapped fetch returns
  exactly that response; the trace of the call is the single transport call, so there is no
  wallet interaction, no RPC call and no callback; the store is the store at entry.
\<close>

theorem non_challenge_passthrough:
  assumes "fetch env 0 url (first_request s fetchOptions) = Inr resp"
    and "status resp \<noteq> 402"
  shows "logical_call options env url fetchOptions s =
     (Inr resp,
      (entry s fetchOptions)
        \<lparr>trace := [Fetch url (first_options s fetchOptions) (first_request s fetchOptions)]\<rparr>)"
  using assms
  by (cases rule: logical_call_cases
        [where options = options and env = env and url = url and fetchOptions = fetchOptions
           and s = s])
     simp_all

theorem non_challenge_passthrough_witness:
  "fetch (example_env serve) 0 ''/y'' (first_request blank None) = Inr granted \<and>
   status granted \<noteq> 402 \<and>
   fst (logical_call example_options (example_env serve) ''/y'' None blank) = Inr granted \<and>
   trace (snd (logical_call example_options (example_env serve) ''/y'' None blank)) =
     [Fetch ''/y'' 0 \<lparr>req_method = None, req_body = None, req_headers = None, req_others = []\<rparr>]"
proof -
  have first: "fetch (example_env serve) 0 ''/y'' (first_request blank None) = Inr granted"
    by (simp add: serve_def)
  have status: "status granted \<noteq> 402"
    by simp
  from non_challenge_passthrough [OF first status, of example_options]
  show ?thesis
    using first by simp
qed

subsection \<open>C3: the transfer that is signed\<close>

text \<open>
  C3. Whenever \<^verbatim>\<open>createAndSignTransaction\<close> returns a proof token: a wallet is present,
  the payout address of the challenge parsed to a public key, a blockhash was fetched from
  the given RPC endpoint, the library built the transfer instruction, and the wallet signed
  the transaction anchored to that blockhash whose fee payer is the wallet's public key and
  whose single instruction transfers priceLamports from the wallet's public key to the
  parsed address; the token is the encoding of the signature of the signed transaction. The
  only interactions are the
  wallet lookup, the connection request (when the wallet was not connected), the RPC
  connection, the blockhash request and the signing request, in this order. In a logical
  call the endpoint is the configured one: every blockhash request of the call goes to
  \<^verbatim>\<open>rpcUrl\<close>, or to the devnet endpoint when none is configured.
\<close>

theorem acquired_proof:
  assumes "createAndSignTransaction env paymentConfig rpc s = (Inr token, s')"
  shows "(\<exists>phantom_w payee recent signed_tx.
           phantom_solana env = Some phantom_w \<and>
           new_PublicKey env (wallet paymentConfig) = Inr payee \<and>
           getLatestBlockhash env rpc = Inr recent \<and>
           SystemProgram_transfer env
             \<lparr>fromPubkey = publicKey phantom_w, toPubkey = payee,
              lamports = priceLamports paymentConfig\<rparr> = None \<and>
           signTransaction phantom_w
             \<lparr>recentBlockhash = recent, feePayer = publicKey phantom_w,
              instructions =
                [\<lparr>fromPubkey = publicKey phantom_w, toPubkey = payee,
                  lamports = priceLamports paymentConfig\<rparr>]\<rparr> = Inr signed_tx \<and>
           bs58_encode env (signature signed_tx) = Inr token \<and>
           trace s' =
             trace s @ [ResolveWallet] @ (if isConnected phantom_w then [] else [Connect]) @
             [NewConnection rpc, GetLatestBlockhash rpc,
              SignTransaction
                \<lparr>recentBlockhash = recent, feePayer = publicKey phantom_w,
                 instructions =
                   [\<lparr>fromPubkey = publicKey phantom_w, toPubkey = payee,
                     lamports = priceLamports paymentConfig\<rparr>]\<rparr>]) \<and>
         (\<forall>u. GetLatestBlockhash u
                \<in> set (trace (snd (logical_call options env url fetchOptions s))) \<longrightarrow>
              u = (case rpcUrl options of
                     None \<Rightarrow> ''https://api.devnet.solana.com'' | Some configured \<Rightarrow> configured))"
proof
  show "\<exists>phantom_w payee recent signed_tx.
           phantom_solana env = Some phantom_w \<and>
           new_PublicKey env (wallet paymentConfig) = Inr payee \<and>
           getLatestBlockhash env rpc = Inr recent \<and>
           SystemProgram_transfer env
             \<lparr>fromPubkey = publicKey phantom_w, toPubkey = payee,
              lamports = priceLamports paymentConfig\<rparr> = None \<and>
           signTransaction phantom_w
             \<lparr>recentBlockhash = recent, feePayer = publicKey phantom_w,
              instructions =
                [\<lparr>fromPubkey = publicKey phantom_w, toPubkey = payee,
                  lamports = priceLamports paymentConfig\<rparr>]\<rparr> = Inr signed_tx \<and>
           bs58_encode env (signature signed_tx) = Inr token \<and>
           trace s' =
             trace s @ [ResolveWallet] @ (if isConnected phantom_w then [] else [Connect]) @
             [NewConnection rpc, GetLatestBlockhash rpc,
              SignTransaction
                \<lparr>recentBlockhash = recent, feePayer = publicKey phantom_w,
                 instructions =
                   [\<lparr>fromPubkey = publicKey phantom_w, toPubkey = payee,
                     lamports = priceLamports paymentConfig\<rparr>]\<rparr>]"
    using assms
    by (auto simp add: createAndSignTransaction_run Let_def
          split: option.splits sum.splits if_splits)
  show "\<forall>u. GetLatestBlockhash u
                \<in> set (trace (snd (logical_call options env url fetchOptions s))) \<longrightarrow>
              u = (case rpcUrl options of
                     None \<Rightarrow> ''https://api.devnet.solana.com'' | Some configured \<Rightarrow> configured)"
    by (cases rule: logical_call_cases
          [where options = options and env = env and url = url and fetchOptions = fetchOptions
             and s = s])
       (auto simp add: caught_trace fired_no_blockhash dest!: acquire_events_blockhash)
qed

theorem acquired_proof_witness:
  "createAndSignTransaction (example_env pay_then_serve) example_config devnet blank =
     (Inr (base58 [7, 9]),
      blank\<lparr>trace := [ResolveWallet, NewConnection devnet, GetLatestBlockhash devnet,
                       SignTransaction example_tx]\<rparr>) \<and>
   (\<exists>phantom_w payee recent signed_tx.
      phantom_solana (example_env pay_then_serve) = Some phantom_w \<and>
      new_PublicKey (example_env pay_then_serve) (wallet example_config) = Inr payee \<and>
      getLatestBlockhash (example_env pay_then_serve) devnet = Inr recent \<and>
      SystemProgram_transfer (example_env pay_then_serve)
        \<lparr>fromPubkey = publicKey phantom_w, toPubkey = payee,
         lamports = priceLamports example_config\<rparr> = None \<and>
      signTransaction phantom_w
        \<lparr>recentBlockhash = recent, feePayer = publicKey phantom_w,
         instructions =
           [\<lparr>fromPubkey = publicKey phantom_w, toPubkey = payee,
             lamports = priceLamports example_config\<rparr>]\<rparr> = Inr signed_tx \<and>
      bs58_encode (example_env pay_then_serve) (signature signed_tx) = Inr (base58 [7, 9])) \<and>
   GetLatestBlockhash devnet
     \<in> set (trace (snd (logical_call example_options (example_env pay_then_serve) ''/x'' None
                          blank))) \<and>
   rpcUrl example_options = None \<and> devnet = ''https://api.devnet.solana.com''"
proof -
  have run: "createAndSignTransaction (example_env pay_then_serve) example_config devnet blank =
     (Inr (base58 [7, 9]),
      blank\<lparr>trace := [ResolveWallet, NewConnection devnet, GetLatestBlockhash devnet,
                       SignTransaction example_tx]\<rparr>)"
    by (simp add: example_acquire base58_example) (simp add: blank_def)
  have requested:
    "GetLatestBlockhash devnet
       \<in> set (trace (snd (logical_call example_options (example_env pay_then_serve) ''/x'' None
                            blank)))"
    by (simp add: paid_run)
  from acquired_proof
    [OF run, where options = example_options and url = "''/x''" and fetchOptions = None]
  have "\<exists>phantom_w payee recent signed_tx.
      phantom_solana (example_env pay_then_serve) = Some phantom_w \<and>
      new_PublicKey (example_env pay_then_serve) (wallet example_config) = Inr payee \<and>
      getLatestBlockhash (example_env pay_then_serve) devnet = Inr recent \<and>
      SystemProgram_transfer (example_env pay_then_serve)
        \<lparr>fromPubkey = publicKey phantom_w, toPubkey = payee,
         lamports = priceLamports example_config\<rparr> = None \<and>
      signTransaction phantom_w
        \<lparr>recentBlockhash = recent, feePayer = publicKey phantom_w,
         instructions =
           [\<lparr>fromPubkey = publicKey phantom_w, toPubkey = payee,
             lamports = priceLamports example_config\<rparr>]\<rparr> = Inr signed_tx \<and>
      bs58_encode (example_env pay_then_serve) (signature signed_tx) = Inr (base58 [7, 9])"
    and "devnet =
      (case rpcUrl example_options of
         None \<Rightarrow> ''https://api.devnet.solana.com'' | Some configured \<Rightarrow> configured)"
    using requested by blast+
  then show ?thesis
    using run requested by simp
qed

subsection \<open>C4: at most two round trips\<close>

text \<open>
  C4. A logical call issues at most two transport calls and runs at most one payment cycle:
  at most one wallet lookup and at most one signing request. When a second transport call is
  issued and the transport answers it with a response, that transport call is the last event
  of the logical call (nothing is inspected, notified or paid after it) and the call returns
  that response, whatever its status: a second 402 is returned as it is.
\<close>

theorem at_most_two_round_trips:
  "fetch_count (trace (snd (logical_call options env url fetchOptions s))) \<le> 2 \<and>
   count_list (trace (snd (logical_call options env url fetchOptions s))) ResolveWallet \<le> 1 \<and>
   length (filter is_signing (trace (snd (logical_call options env url fetchOptions s)))) \<le> 1 \<and>
   (filter is_fetch (trace (snd (logical_call options env url fetchOptions s))) =
      [ev, Fetch u a q] \<and> fetch env 1 u q = Inr resp \<longrightarrow>
    fst (logical_call options env url fetchOptions s) = Inr resp \<and>
    last (trace (snd (logical_call options env url fetchOptions s))) = Fetch u a q)"
  by (cases rule: logical_call_cases
        [where options = options and env = env and url = url and fetchOptions = fetchOptions
           and s = s])
     (auto simp add: leaf_simps acquire_events_cycle fired_no_cycle)

theorem at_most_two_round_trips_witness:
  "filter is_fetch
     (trace (snd (logical_call example_options (example_env always_challenge) ''/x'' None blank))) =
     [Fetch ''/x'' 0 \<lparr>req_method = None, req_body = None, req_headers = None, req_others = []\<rparr>,
      Fetch ''/x'' 2
        \<lparr>req_method = None, req_body = None,
         req_headers = Some (PlainObject [(''x-tx-signature'', ''Y4'')]), req_others = []\<rparr>] \<and>
   fetch (example_env always_challenge) 1 ''/x''
     \<lparr>req_method = None, req_body = None,
      req_headers = Some (PlainObject [(''x-tx-signature'', ''Y4'')]), req_others = []\<rparr> =
     Inr challenge \<and>
   status challenge = 402 \<and>
   fst (logical_call example_options (example_env always_challenge) ''/x'' None blank) =
     Inr challenge \<and>
   last (trace (snd (logical_call example_options (example_env always_challenge) ''/x'' None
                       blank))) =
     Fetch ''/x'' 2
       \<lparr>req_method = None, req_body = None,
        req_headers = Some (PlainObject [(''x-tx-signature'', ''Y4'')]), req_others = []\<rparr> \<and>
   count_list
     (trace (snd (logical_call example_options (example_env always_challenge) ''/x'' None blank)))
     ResolveWallet = 1 \<and>
   length (filter is_signing
     (trace (snd (logical_call example_options (example_env always_challenge) ''/x'' None
                    blank)))) = 1"
proof -
  have fetches:
    "filter is_fetch
       (trace (snd (logical_call example_options (example_env always_challenge) ''/x'' None
                      blank))) =
       [Fetch ''/x'' 0 \<lparr>req_method = None, req_body = None, req_headers = None, req_others = []\<rparr>,
        Fetch ''/x'' 2
          \<lparr>req_method = None, req_body = None,
           req_headers = Some (PlainObject [(''x-tx-signature'', ''Y4'')]), req_others = []\<rparr>]"
    by (simp add: twice_challenged_run)
  have answered:
    "fetch (example_env always_challenge) 1 ''/x''
       \<lparr>req_method = None, req_body = None,
        req_headers = Some (PlainObject [(''x-tx-signature'', ''Y4'')]), req_others = []\<rparr> =
       Inr challenge"
    by (simp add: always_challenge_def)
  have cycle:
    "count_list
       (trace (snd (logical_call example_options (example_env always_challenge) ''/x'' None
                      blank)))
       ResolveWallet = 1"
    "length (filter is_signing
       (trace (snd (logical_call example_options (example_env always_challenge) ''/x'' None
                      blank)))) = 1"
    by (simp_all add: twice_challenged_run)
  from at_most_two_round_trips
    [where options = example_options and env = "example_env always_challenge" and url = "''/x''"
       and fetchOptions = None and s = blank and resp = challenge and u = "''/x''" and a = 2
       and ev = "Fetch ''/x'' 0
         \<lparr>req_method = None, req_body = None, req_headers = None, req_others = []\<rparr>"
       and q = "\<lparr>req_method = None, req_body = None,
         req_headers = Some (PlainObject [(''x-tx-signature'', ''Y4'')]), req_others = []\<rparr>"]
  have "fst (logical_call example_options (example_env always_challenge) ''/x'' None blank) =
      Inr challenge"
    and "last (trace (snd (logical_call example_options (example_env always_challenge) ''/x'' None
                         blank))) =
      Fetch ''/x'' 2
        \<lparr>req_method = None, req_body = None,
         req_headers = Some (PlainObject [(''x-tx-signature'', ''Y4'')]), req_others = []\<rparr>"
    using fetches answered by simp_all
  then show ?thesis
    using fetches answered cycle by simp
qed

subsection \<open>C5: the retried request\<close>

text \<open>
  What the code does for every call: the retried request goes to the same URL and equals the
  original request except for its headers, which are a new plain object holding the spread
  of the original headers with the token stored under \<^verbatim>\<open>x-tx-signature\<close>. When the
  original headers are a plain object, every other header is kept.
\<close>

lemma retry_request_entry:
  "retry_request (entry s fetchOptions) (first_options s fetchOptions) sig =
     (first_request s fetchOptions)
       \<lparr>req_headers :=
          Some (PlainObject
                  (AList.update ''x-tx-signature'' sig
                     (spread_headers (req_headers (first_request s fetchOptions)))))\<rparr>"
  by (simp add: retry_request_def retry_state_def request_of_def first_request_def
        first_options_def entry_def split: option.split)

lemma retried_request:
  assumes "filter is_fetch (trace (snd (logical_call options env url fetchOptions s))) =
             [Fetch u a q, Fetch u' a' q']"
  shows "u' = u \<and>
         (\<exists>sig. q' = q\<lparr>req_headers :=
                         Some (PlainObject
                                 (AList.update ''x-tx-signature'' sig
                                    (spread_headers (req_headers q))))\<rparr>)"
  using assms
  by (cases rule: logical_call_cases
        [where options = options and env = env and url = url and fetchOptions = fetchOptions
           and s = s])
     (auto simp add: leaf_simps retry_request_entry)

lemma retried_request_plain_headers:
  assumes "filter is_fetch (trace (snd (logical_call options env url fetchOptions s))) =
             [Fetch u a q, Fetch u' a' q']"
    and "req_headers q = Some (PlainObject ps)"
  shows "\<exists>sig ps'. req_headers q' = Some (PlainObject ps') \<and>
           map_of ps' = (map_of ps)(''x-tx-signature'' \<mapsto> sig) \<and>
           req_method q' = req_method q \<and> req_body q' = req_body q \<and>
           req_others q' = req_others q"
  using retried_request [OF assms(1)] assms(2)
  by (auto simp add: update_conv')

text \<open>
  C5 fails on the code when the caller's headers are a \<^verbatim>\<open>Headers\<close> instance, which
  \<^verbatim>\<open>RequestInit\<close> allows: the object spread of line 51 copies own enumerable
  properties, a \<^verbatim>\<open>Headers\<close> instance has none, and the retried request carries the
  proof header alone. Here the original request carries an Authorization header and the
  retried request does not; method, body and the other options are kept.
\<close>

theorem headers_instance_dropped:
  "filter is_fetch
     (trace (snd (logical_call example_options (example_env pay_then_serve) ''/x'' (Some 0)
                    instance_store))) =
     [Fetch ''/x'' 0
        \<lparr>req_method = Some ''POST'', req_body = Some ''{}'',
         req_headers = Some (HeadersInstance [(''Authorization'', ''Bearer t'')]),
         req_others = [(''mode'', ''cors'')]\<rparr>,
      Fetch ''/x'' 2
        \<lparr>req_method = Some ''POST'', req_body = Some ''{}'',
         req_headers = Some (PlainObject [(''x-tx-signature'', ''Y4'')]),
         req_others = [(''mode'', ''cors'')]\<rparr>]"
  by (simp add: run_example)

subsection \<open>C6: onPaymentStart comes first\<close>

text \<open>
  As stated, C6 fails: the catch block fires onPaymentError for an error of the initial
  transport call and for a challenge body that does not parse, both of which happen before
  line 40, so that onPaymentError is the first and only callback to fire.
\<close>

theorem error_before_start_counterexample:
  "trace (snd (logical_call example_options (example_env offline) ''/x'' None blank)) =
     [Fetch ''/x'' 0 \<lparr>req_method = None, req_body = None, req_headers = None, req_others = []\<rparr>,
      OnPaymentError network_error] \<and>
   \<not> preceded_by is_start is_error
       (trace (snd (logical_call example_options (example_env offline) ''/x'' None blank))) \<and>
   trace (snd (logical_call example_options (example_env malformed_challenge) ''/x'' None blank)) =
     [Fetch ''/x'' 0 \<lparr>req_method = None, req_body = None, req_headers = None, req_others = []\<rparr>,
      OnPaymentError parse_error] \<and>
   \<not> preceded_by is_start is_error
       (trace (snd (logical_call example_options (example_env malformed_challenge) ''/x'' None
                      blank)))"
  by (simp add: offline_run malformed_run)

text \<open>
  C6, amended. In every logical call onPaymentStart is invoked at most once. When
  onPaymentStart is supplied, every invocation of onPaymentSuccess has an invocation of
  onPaymentStart strictly before it, and so has every invocation of onPaymentError in a call
  whose initial transport call returned a response whose body parsed. When the initial
  transport call fails, onPaymentStart is not invoked, so that onPaymentError fires with no
  onPaymentStart before it.
\<close>

theorem start_ordering:
  "length (filter is_start (trace (snd (logical_call options env url fetchOptions s)))) \<le> 1 \<and>
   (onPaymentStart options \<noteq> None \<longrightarrow>
      preceded_by is_start is_success (trace (snd (logical_call options env url fetchOptions s)))) \<and>
   (onPaymentStart options \<noteq> None \<and>
    fetch env 0 url (first_request s fetchOptions) = Inr resp \<and> json resp = Inr paymentConfig \<longrightarrow>
      preceded_by is_start is_error (trace (snd (logical_call options env url fetchOptions s)))) \<and>
   (fetch env 0 url (first_request s fetchOptions) = Inl err \<longrightarrow>
      filter is_start (trace (snd (logical_call options env url fetchOptions s))) = [])"
  by (cases rule: logical_call_cases
        [where options = options and env = env and url = url and fetchOptions = fetchOptions
           and s = s])
     (auto simp add: leaf_simps fired_def split: option.splits)

theorem start_ordering_witness:
  "onPaymentStart example_options \<noteq> None \<and>
   fetch (example_env drop_retry) 0 ''/x'' (first_request blank None) = Inr challenge \<and>
   json challenge = Inr example_config \<and>
   filter is_success
     (trace (snd (logical_call example_options (example_env drop_retry) ''/x'' None blank))) \<noteq> [] \<and>
   filter is_error
     (trace (snd (logical_call example_options (example_env drop_retry) ''/x'' None blank))) \<noteq> [] \<and>
   preceded_by is_start is_success
     (trace (snd (logical_call example_options (example_env drop_retry) ''/x'' None blank))) \<and>
   preceded_by is_start is_error
     (trace (snd (logical_call example_options (example_env drop_retry) ''/x'' None blank))) \<and>
   fetch (example_env offline) 0 ''/x'' (first_request blank None) = Inl network_error \<and>
   filter is_start
     (trace (snd (logical_call example_options (example_env offline) ''/x'' None blank))) = []"
proof -
  have supplied: "onPaymentStart example_options \<noteq> None"
    by (simp add: example_options_def)
  have first: "fetch (example_env drop_retry) 0 ''/x'' (first_request blank None) = Inr challenge"
    by (simp add: drop_retry_def)
  have events:
    "filter is_success
       (trace (snd (logical_call example_options (example_env drop_retry) ''/x'' None blank))) \<noteq> []"
    "filter is_error
       (trace (snd (logical_call example_options (example_env drop_retry) ''/x'' None blank))) \<noteq> []"
    by (simp_all add: dropped_retry_run)
  have failed: "fetch (example_env offline) 0 ''/x'' (first_request blank None) = Inl network_error"
    by (simp add: offline_def)
  from start_ordering
    [where options = example_options and env = "example_env drop_retry" and url = "''/x''"
       and fetchOptions = None and s = blank and resp = challenge
       and paymentConfig = example_config]
  have ordered:
    "preceded_by is_start is_success
       (trace (snd (logical_call example_options (example_env drop_retry) ''/x'' None blank)))"
    "preceded_by is_start is_error
       (trace (snd (logical_call example_options (example_env drop_retry) ''/x'' None blank)))"
    using supplied first by simp_all
  from start_ordering
    [where options = example_options and env = "example_env offline" and url = "''/x''"
       and fetchOptions = None and s = blank and err = network_error]
  have "filter is_start
     (trace (snd (logical_call example_options (example_env offline) ''/x'' None blank))) = []"
    using failed by simp
  then show ?thesis
    using supplied first events ordered failed by simp
qed

subsection \<open>C7: no wallet\<close>




subsection \<open>C8: failure of the initial transport call\<close>

text \<open>
  As stated, C8 fails: the initial transport call is inside the try block, so its error
  reaches the catch block, which invokes onPaymentError before rethrowing.
\<close>

theorem transport_failure_notified_counterexample:
  "fetch (example_env offline) 0 ''/x'' (first_request blank None) = Inl network_error \<and>
   fst (logical_call example_options (example_env offline) ''/x'' None blank) =
     Inl network_error \<and>
   filter is_error
     (trace (snd (logical_call example_options (example_env offline) ''/x'' None blank))) =
     [OnPaymentError network_error]"
  by (simp add: offline_run) (simp add: offline_def)

text \<open>
  C8, amended. When the initial transport call fails, onPaymentError, if supplied, is invoked
  once with the error, and it is the only event of the call after the transport call: no
  other callback, no wallet or RPC interaction, no retry. The error propagates unchanged to
  the caller (provided onPaymentError does not throw).
\<close>

theorem initial_transport_failure:
  assumes "fetch env 0 url (first_request s fetchOptions) = Inl err"
  shows "trace (snd (logical_call options env url fetchOptions s)) =
           Fetch url (first_options s fetchOptions) (first_request s fetchOptions) #
           fired (onPaymentError options) (OnPaymentError err) \<and>
         (outcome (onPaymentError options) err = None \<longrightarrow>
            fst (logical_call options env url fetchOptions s) = Inl err)"
  using assms
  by (cases rule: logical_call_cases
        [where options = options and env = env and url = url and fetchOptions = fetchOptions
           and s = s])
     (simp_all add: caught_trace)

theorem initial_transport_failure_witness:
  "fetch (example_env offline) 0 ''/x'' (first_request blank None) = Inl network_error \<and>
   outcome (onPaymentError example_options) network_error = None \<and>
   trace (snd (logical_call example_options (example_env offline) ''/x'' None blank)) =
     [Fetch ''/x'' 0 \<lparr>req_method = None, req_body = None, req_headers = None, req_others = []\<rparr>,
      OnPaymentError network_error] \<and>
   fst (logical_call example_options (example_env offline) ''/x'' None blank) = Inl network_error"
proof -
  have first: "fetch (example_env offline) 0 ''/x'' (first_request blank None) = Inl network_error"
    by (simp add: offline_def)
  from initial_transport_failure [OF first, of example_options]
  show ?thesis
    using first by simp
qed

subsection \<open>C9: fields the core does not read\<close>

text \<open>
  C9. Changing the requiresPayment, serviceId and message fields of a challenge changes
  nothing: \<^verbatim>\<open>createAndSignTransaction\<close> returns the same token and asks the wallet to
  sign the same transaction, and a logical call whose 402 response carries the changed
  challenge has the same result, the same trace (so the same transaction and the same
  retried request) and the same store.
\<close>

theorem uninterpreted_fields:
  "createAndSignTransaction env
     (paymentConfig\<lparr>requiresPayment := rp, serviceId := sid, message := msg\<rparr>) rpc s =
   createAndSignTransaction env paymentConfig rpc s \<and>
   (fetch env 0 url (first_request s fetchOptions) = Inr resp \<and> status resp = 402 \<and>
    json resp = Inr paymentConfig \<longrightarrow>
    logical_call options
      (env\<lparr>fetch :=
         (\<lambda>n u q.
            if n = 0
            then Inr (resp\<lparr>json :=
                        Inr (paymentConfig\<lparr>requiresPayment := rp, serviceId := sid,
                                message := msg\<rparr>)\<rparr>)
            else fetch env n u q)\<rparr>)
      url fetchOptions s =
    logical_call options env url fetchOptions s)"
  by (simp add: createAndSignTransaction_summary acquire_ignores_fields logical_call_paths
        after_challenge_ignores Let_def)

theorem uninterpreted_fields_witness:
  "fetch (example_env pay_then_serve) 0 ''/x'' (first_request blank None) = Inr challenge \<and>
   status challenge = 402 \<and> json challenge = Inr example_config \<and>
   example_config\<lparr>requiresPayment := False, serviceId := ''other'', message := ''hello''\<rparr> \<noteq>
     example_config \<and>
   logical_call example_options
     (example_env pay_then_serve
        \<lparr>fetch :=
           (\<lambda>n u q.
              if n = 0
              then Inr (challenge
                         \<lparr>json :=
                            Inr (example_config
                                   \<lparr>requiresPayment := False, serviceId := ''other'',
                                      message := ''hello''\<rparr>)\<rparr>)
              else fetch (example_env pay_then_serve) n u q)\<rparr>)
     ''/x'' None blank =
   logical_call example_options (example_env pay_then_serve) ''/x'' None blank"
proof -
  have first: "fetch (example_env pay_then_serve) 0 ''/x'' (first_request blank None) = Inr challenge"
    by (simp add: pay_then_serve_def)
  have differs:
    "example_config\<lparr>requiresPayment := False, serviceId := ''other'', message := ''hello''\<rparr> \<noteq>
       example_config"
    by (simp add: example_config_def)
  from uninterpreted_fields
    [where env = "example_env pay_then_serve" and paymentConfig = example_config
       and url = "''/x''" and s = blank and fetchOptions = None and resp = challenge
       and options = example_options and rp = False and sid = "''other''" and msg = "''hello''"]
  show ?thesis
    using first differs by simp
qed

subsection \<open>C10: the caller's objects\<close>

text \<open>
  C10. A logical call leaves every object that was allocated before the call as it was, in
  particular the caller's options object and its headers object; and every transport call
  after the first is handed an options object allocated during the call, whose headers are
  an object allocated during the call.
\<close>

theorem caller_objects_untouched:
  "(\<forall>b < next_addr s.
      options_at (snd (logical_call options env url fetchOptions s)) b = options_at s b \<and>
      headers_at (snd (logical_call options env url fetchOptions s)) b = headers_at s b) \<and>
   (\<forall>u b q.
      Fetch u b q \<in> set (tl (filter is_fetch
                               (trace (snd (logical_call options env url fetchOptions s))))) \<longrightarrow>
      next_addr s \<le> b \<and>
      (\<exists>h. headers (options_at (snd (logical_call options env url fetchOptions s)) b) = Some h \<and>
           next_addr s \<le> h))"
  by (cases rule: logical_call_cases
        [where options = options and env = env and url = url and fetchOptions = fetchOptions
           and s = s])
     (auto simp add: leaf_simps entry_def retry_state_def split: option.splits)

theorem caller_objects_untouched_witness:
  "0 < next_addr plain_store \<and>
   options_at (snd (logical_call example_options (example_env pay_then_serve) ''/x'' (Some 0)
                      plain_store)) 0 = caller_options \<and>
   headers_at (snd (logical_call example_options (example_env pay_then_serve) ''/x'' (Some 0)
                      plain_store)) 0 =
     PlainObject [(''Authorization'', ''Bearer t''), (''x-tx-signature'', ''stale'')] \<and>
   Fetch ''/x'' 2
     \<lparr>req_method = Some ''POST'', req_body = Some ''{}'',
      req_headers =
        Some (PlainObject [(''Authorization'', ''Bearer t''), (''x-tx-signature'', ''Y4'')]),
      req_others = [(''mode'', ''cors'')]\<rparr>
     \<in> set (tl (filter is_fetch
                  (trace (snd (logical_call example_options (example_env pay_then_serve) ''/x''
                                 (Some 0) plain_store))))) \<and>
   next_addr plain_store \<le> 2"
proof -
  have allocated: "0 < next_addr plain_store"
    by (simp add: plain_store_def)
  have retried:
    "Fetch ''/x'' 2
       \<lparr>req_method = Some ''POST'', req_body = Some ''{}'',
        req_headers =
          Some (PlainObject [(''Authorization'', ''Bearer t''), (''x-tx-signature'', ''Y4'')]),
        req_others = [(''mode'', ''cors'')]\<rparr>
       \<in> set (tl (filter is_fetch
                    (trace (snd (logical_call example_options (example_env pay_then_serve) ''/x''
                                   (Some 0) plain_store)))))"
    by (simp add: plain_store_run)
  from caller_objects_untouched
    [where s = plain_store and options = example_options
       and env = "example_env pay_then_serve" and url = "''/x''" and fetchOptions = "Some 0"]
  have "options_at (snd (logical_call example_options (example_env pay_then_serve) ''/x'' (Some 0)
                      plain_store)) 0 = options_at plain_store 0"
    and "headers_at (snd (logical_call example_options (example_env pay_then_serve) ''/x'' (Some 0)
                      plain_store)) 0 = headers_at plain_store 0"
    and "next_addr plain_store \<le> 2"
    using allocated retried by blast+
  then show ?thesis
    using allocated retried by (simp add: plain_store_def blank_def)
qed


end
